theory Spec2Isabelle
  imports Complex_Main
begin

section \<open>Supply-chain risk scoring engine (services/risk\_assessment\_service.py)\<close>

text \<open>
  A shallow embedding of class \<open>RiskAssessmentService\<close>.

  Numbers. Python's \<open>float\<close> values are modelled as exact rationals (\<open>rat\<close>): sums,
  quotients, squares and comparisons are the mathematical ones, and binary rounding error
  is not part of the model. Python's \<open>round(x, 3)\<close> is modelled by \<open>round3\<close>, rounding the
  exact value to the nearest multiple of \<open>1/1000\<close>, ties to the even neighbour.

  Dictionaries. A location dictionary is read only through the keys \<open>type\<close>, \<open>name\<close> and
  \<open>country\<close>; each is a field of type \<open>string option\<close>, where \<open>None\<close> stands for a missing
  key, so that every \<open>.get(key, default)\<close> of the source is a case distinction of the model.
\<close>

subsection \<open>Rounding\<close>

definition round_half_even :: "rat \<Rightarrow> int" where
  "round_half_even x =
     (let f = \<lfloor>x\<rfloor>; d = x - of_int f
      in if d < 1 / 2 then f
         else if 1 / 2 < d then f + 1
         else if even f then f else f + 1)"

definition round3 :: "rat \<Rightarrow> rat" where
  "round3 x = of_int (round_half_even (x * 1000)) / 1000"

subsection \<open>Locations\<close>

record location =
  loc_type :: "string option"
  loc_name :: "string option"
  loc_country :: "string option"

text \<open>\<open>location.get('country', 'Unknown')\<close>\<close>

definition country_of :: "location \<Rightarrow> string" where
  "country_of loc = (case loc_country loc of None \<Rightarrow> ''Unknown'' | Some c \<Rightarrow> c)"

subsection \<open>Concentration index (\<open>calculate_hhi\<close>)\<close>

text \<open>
  \<open>collections.Counter\<close> is an insertion-ordered dictionary from keys to counts; it is an
  association list here. \<open>counter_incr\<close> is \<open>country_counts[country] += 1\<close>: a key that
  is not there yet starts at 0 and is appended.
\<close>

fun counter_incr :: "(string \<times> nat) list \<Rightarrow> string \<Rightarrow> (string \<times> nat) list" where
  "counter_incr [] c = [(c, 1)]"
| "counter_incr ((k, n) # kvs) c =
     (if k = c then (k, n + 1) # kvs else (k, n) # counter_incr kvs c)"

text \<open>The loop \<open>for location in filtered_locations: country_counts[country] += 1\<close>.\<close>

definition count_countries :: "location list \<Rightarrow> (string \<times> nat) list" where
  "count_countries locs = fold (\<lambda>location country_counts.
      counter_incr country_counts (country_of location)) locs []"

text \<open>
  The optional argument \<open>location_type\<close> is a \<open>string option\<close>: \<open>None\<close> is Python's
  \<open>None\<close>. The test \<open>if location_type:\<close> is Python truthiness, so the empty string
  selects no filter either.
\<close>

definition truthy :: "string option \<Rightarrow> bool" where
  "truthy s = (case s of None \<Rightarrow> False | Some t \<Rightarrow> t \<noteq> [])"

definition calculate_hhi :: "location list \<Rightarrow> string option \<Rightarrow> rat" where
  "calculate_hhi locations location_type =
     (if locations = [] then 0
      else
        let filtered_locations =
              (if truthy location_type
               then filter (\<lambda>loc. loc_type loc = location_type) locations
               else locations)
        in if filtered_locations = [] then 0
           else
             let country_counts = count_countries filtered_locations;
                 total_locations = length filtered_locations
             in if total_locations = 0 then 0
                else fold (\<lambda>count hhi.
                       hhi + (of_nat count / of_nat total_locations)\<^sup>2)
                     (map snd country_counts) 0)"

subsection \<open>Static risk tables\<close>

text \<open>
  The two dictionaries built by \<open>_load_climate_risk_data\<close> and
  \<open>_load_geopolitical_risk_data\<close>, entry by entry in source order. The climate literal
  repeats seven keys (with the same value); a Python dictionary literal keeps the last
  value of a repeated key, which \<open>dict_get\<close> does by searching from the end.
\<close>

definition climate_risk_data :: "(string \<times> rat) list" where
  "climate_risk_data =
    [(''Australia'', 0.3), (''China'', 0.6), (''USA'', 0.4), (''Germany'', 0.2),
     (''Japan'', 0.5), (''India'', 0.7), (''Brazil'', 0.6), (''Canada'', 0.3),
     (''United Kingdom'', 0.3), (''France'', 0.2), (''Italy'', 0.4), (''Spain'', 0.5),
     (''Netherlands'', 0.3), (''South Korea'', 0.4), (''Taiwan'', 0.5),
     (''Thailand'', 0.6), (''Vietnam'', 0.6), (''Indonesia'', 0.7), (''Malaysia'', 0.6),
     (''Philippines'', 0.7), (''Mexico'', 0.5), (''Turkey'', 0.5), (''Poland'', 0.3),
     (''Czech Republic'', 0.3), (''Hungary'', 0.4), (''Romania'', 0.4),
     (''Bulgaria'', 0.4), (''Croatia'', 0.4), (''Slovakia'', 0.3), (''Slovenia'', 0.3),
     (''Estonia'', 0.3), (''Latvia'', 0.3), (''Lithuania'', 0.3), (''Finland'', 0.2),
     (''Sweden'', 0.2), (''Norway'', 0.2), (''Denmark'', 0.3), (''Switzerland'', 0.2),
     (''Austria'', 0.2), (''Belgium'', 0.3), (''Luxembourg'', 0.3), (''Ireland'', 0.3),
     (''Portugal'', 0.4), (''Greece'', 0.5), (''Cyprus'', 0.5), (''Malta'', 0.4),
     (''Iceland'', 0.2), (''New Zealand'', 0.3), (''South Africa'', 0.6), (''Egypt'', 0.7),
     (''Morocco'', 0.6), (''Tunisia'', 0.6), (''Algeria'', 0.6), (''Libya'', 0.7),
     (''Sudan'', 0.8), (''Ethiopia'', 0.7), (''Kenya'', 0.6), (''Nigeria'', 0.7),
     (''Ghana'', 0.6), (''Senegal'', 0.6), (''Ivory Coast'', 0.6), (''Cameroon'', 0.6),
     (''Angola'', 0.6), (''Mozambique'', 0.6), (''Tanzania'', 0.6), (''Uganda'', 0.6),
     (''Rwanda'', 0.6), (''Burundi'', 0.6), (''Madagascar'', 0.6), (''Mauritius'', 0.5),
     (''Seychelles'', 0.5), (''Reunion'', 0.5), (''Mayotte'', 0.5), (''Comoros'', 0.6),
     (''Djibouti'', 0.7), (''Somalia'', 0.8), (''Eritrea'', 0.7), (''Chad'', 0.7),
     (''Niger'', 0.7), (''Mali'', 0.7), (''Burkina Faso'', 0.7), (''Guinea'', 0.6),
     (''Sierra Leone'', 0.6), (''Liberia'', 0.6), (''Gambia'', 0.6),
     (''Guinea-Bissau'', 0.6), (''Cape Verde'', 0.5), (''Sao Tome and Principe'', 0.5),
     (''Equatorial Guinea'', 0.6), (''Gabon'', 0.6), (''Republic of the Congo'', 0.6),
     (''Democratic Republic of the Congo'', 0.7), (''Central African Republic'', 0.7),
     (''Zambia'', 0.6), (''Zimbabwe'', 0.6), (''Botswana'', 0.6), (''Namibia'', 0.6),
     (''Lesotho'', 0.6), (''Swaziland'', 0.6), (''Malawi'', 0.6), (''Zambia'', 0.6),
     (''Zimbabwe'', 0.6), (''Botswana'', 0.6), (''Namibia'', 0.6), (''Lesotho'', 0.6),
     (''Swaziland'', 0.6), (''Malawi'', 0.6), (''Unknown'', 0.5)]"

definition geopolitical_risk_data :: "(string \<times> rat) list" where
  "geopolitical_risk_data =
    [(''Australia'', 0.1), (''China'', 0.4), (''USA'', 0.2), (''Germany'', 0.1),
     (''Japan'', 0.2), (''India'', 0.3), (''Brazil'', 0.3), (''Canada'', 0.1),
     (''United Kingdom'', 0.2), (''France'', 0.2), (''Italy'', 0.2), (''Spain'', 0.2),
     (''Netherlands'', 0.1), (''South Korea'', 0.3), (''Taiwan'', 0.5),
     (''Thailand'', 0.3), (''Vietnam'', 0.3), (''Indonesia'', 0.3), (''Malaysia'', 0.3),
     (''Philippines'', 0.4), (''Mexico'', 0.4), (''Turkey'', 0.5), (''Poland'', 0.2),
     (''Czech Republic'', 0.2), (''Hungary'', 0.3), (''Romania'', 0.3),
     (''Bulgaria'', 0.3), (''Croatia'', 0.2), (''Slovakia'', 0.2), (''Slovenia'', 0.2),
     (''Estonia'', 0.3), (''Latvia'', 0.3), (''Lithuania'', 0.3), (''Finland'', 0.2),
     (''Sweden'', 0.1), (''Norway'', 0.1), (''Denmark'', 0.1), (''Switzerland'', 0.1),
     (''Austria'', 0.1), (''Belgium'', 0.1), (''Luxembourg'', 0.1), (''Ireland'', 0.1),
     (''Portugal'', 0.2), (''Greece'', 0.3), (''Cyprus'', 0.4), (''Malta'', 0.2),
     (''Iceland'', 0.1), (''New Zealand'', 0.1), (''South Africa'', 0.4), (''Egypt'', 0.6),
     (''Morocco'', 0.4), (''Tunisia'', 0.4), (''Algeria'', 0.5), (''Libya'', 0.7),
     (''Sudan'', 0.8), (''Ethiopia'', 0.5), (''Kenya'', 0.4), (''Nigeria'', 0.5),
     (''Ghana'', 0.3), (''Senegal'', 0.3), (''Ivory Coast'', 0.4), (''Cameroon'', 0.4),
     (''Angola'', 0.4), (''Mozambique'', 0.4), (''Tanzania'', 0.3), (''Uganda'', 0.4),
     (''Rwanda'', 0.3), (''Burundi'', 0.5), (''Madagascar'', 0.3), (''Mauritius'', 0.2),
     (''Seychelles'', 0.2), (''Reunion'', 0.2), (''Mayotte'', 0.2), (''Comoros'', 0.3),
     (''Djibouti'', 0.5), (''Somalia'', 0.8), (''Eritrea'', 0.6), (''Chad'', 0.6),
     (''Niger'', 0.6), (''Mali'', 0.6), (''Burkina Faso'', 0.6), (''Guinea'', 0.4),
     (''Sierra Leone'', 0.4), (''Liberia'', 0.4), (''Gambia'', 0.3),
     (''Guinea-Bissau'', 0.4), (''Cape Verde'', 0.2), (''Sao Tome and Principe'', 0.2),
     (''Equatorial Guinea'', 0.4), (''Gabon'', 0.3), (''Republic of the Congo'', 0.4),
     (''Democratic Republic of the Congo'', 0.6), (''Central African Republic'', 0.7),
     (''Zambia'', 0.3), (''Zimbabwe'', 0.5), (''Botswana'', 0.2), (''Namibia'', 0.3),
     (''Lesotho'', 0.3), (''Swaziland'', 0.3), (''Malawi'', 0.3), (''Unknown'', 0.5)]"

text \<open>\<open>table.get(key, default)\<close>\<close>

definition dict_get :: "(string \<times> rat) list \<Rightarrow> string \<Rightarrow> rat \<Rightarrow> rat" where
  "dict_get tbl key dflt = (case map_of (rev tbl) key of None \<Rightarrow> dflt | Some v \<Rightarrow> v)"

subsection \<open>Segmented geographic risk (\<open>assess_geographic_risk\<close>)\<close>

record hhi_by_type_result =
  hbt_manufacturing :: rat
  hbt_materials :: rat
  hbt_storage :: rat

record segment_result =
  seg_base_hhi :: rat
  seg_adjusted_hhi :: rat
  seg_overlap_ratio :: rat

record hhi_by_segment_result =
  materials_to_manufacturing :: segment_result
  manufacturing_to_storage :: segment_result

record high_risk_country =
  hrc_country :: string
  hrc_climate_risk :: rat
  hrc_geopolitical_risk :: rat

text \<open>
  The three formatted diagnostics. \<open>HighGeographicConcentration x\<close> is the text
  \<open>High geographic concentration (HHI: x)\<close> with \<open>x\<close> printed by \<open>:.3f\<close>,
  \<open>LimitedGeographicDiversity n\<close> is \<open>Limited geographic diversity (n countries)\<close>, and
  \<open>HighRiskCountries cs\<close> is \<open>High-risk countries:\<close> followed by the list \<open>cs\<close>.
\<close>

datatype risk_factor =
    HighGeographicConcentration rat
  | LimitedGeographicDiversity nat
  | HighRiskCountries "string list"

text \<open>
  The dictionary returned by \<open>assess_geographic_risk\<close>. The early return for an empty
  list has no \<open>hhi_by_type\<close>, \<open>hhi_by_segment\<close> and \<open>high_risk_countries\<close> keys: these
  three fields are options, \<open>None\<close> for a missing key.
\<close>

record geographic_result =
  geo_total_locations :: nat
  geo_countries :: nat
  geo_hhi :: rat
  geo_concentration_risk :: string
  geo_country_distribution :: "(string \<times> nat) list"
  geo_hhi_by_type :: "hhi_by_type_result option"
  geo_hhi_by_segment :: "hhi_by_segment_result option"
  geo_risk_factors :: "risk_factor list"
  geo_high_risk_countries :: "high_risk_country list option"

text \<open>The comprehension \<open>[loc.get('country', 'Unknown') for loc in locations if
  loc.get('type') == t]\<close>.\<close>

definition countries_of_type :: "location list \<Rightarrow> string \<Rightarrow> string list" where
  "countries_of_type locations t =
     map country_of (filter (\<lambda>loc. loc_type loc = Some t) locations)"

text \<open>The local function \<open>overlap_ratio\<close>; \<open>if c\<close> drops empty country names from the
  target set.\<close>

definition overlap_ratio :: "string list \<Rightarrow> string list \<Rightarrow> rat" where
  "overlap_ratio source_countries target_countries =
     (if source_countries = [] then 0
      else
        let target_set = set (filter (\<lambda>c. c \<noteq> []) target_countries);
            overlap = length (filter (\<lambda>c. c \<in> target_set) source_countries)
        in of_nat overlap / of_nat (max (length source_countries) 1))"

text \<open>\<open>max(base * (1.0 - k * overlap), 0.0)\<close> with \<open>k = 0.5\<close>, written twice in the
  source (lines 338 and 339).\<close>

definition adjusted_segment_hhi :: "rat \<Rightarrow> rat \<Rightarrow> rat" where
  "adjusted_segment_hhi base overlap = (let k = 0.5 in max (base * (1 - k * overlap)) 0)"

definition concentration_level :: "rat \<Rightarrow> string" where
  "concentration_level overall_hhi =
     (if overall_hhi \<ge> 0.7 then ''very_high''
      else if overall_hhi \<ge> 0.5 then ''high''
      else if overall_hhi \<ge> 0.3 then ''moderate''
      else ''low'')"

text \<open>The loop over \<open>countries\<close> that collects the high-risk countries.\<close>

definition collect_high_risk_countries :: "string list \<Rightarrow> high_risk_country list" where
  "collect_high_risk_countries countries =
     fold (\<lambda>country high_risk_countries.
        let climate_risk = dict_get climate_risk_data country 0.5;
            geo_risk = dict_get geopolitical_risk_data country 0.5
        in if climate_risk \<ge> 0.7 \<or> geo_risk \<ge> 0.7
           then high_risk_countries @
                  [\<lparr>hrc_country = country, hrc_climate_risk = climate_risk,
                    hrc_geopolitical_risk = geo_risk\<rparr>]
           else high_risk_countries) countries []"

text \<open>
  \<open>countries\<close> is a Python \<open>set\<close>; it is the duplicate-free list \<open>remdups\<close> here. Python
  does not fix the iteration order of a set, so the order of \<open>high_risk_countries\<close> is
  one of the possible ones; no theorem below depends on it.
\<close>

definition assess_geographic_risk :: "location list \<Rightarrow> geographic_result" where
  "assess_geographic_risk locations =
     (if locations = [] then
        \<lparr>geo_total_locations = 0, geo_countries = 0, geo_hhi = 0,
         geo_concentration_risk = ''low'', geo_country_distribution = [],
         geo_hhi_by_type = None, geo_hhi_by_segment = None, geo_risk_factors = [],
         geo_high_risk_countries = None\<rparr>
      else
        let overall_hhi = calculate_hhi locations None;
            manufacturing_hhi = calculate_hhi locations (Some ''manufacturing'');
            materials_hhi = calculate_hhi locations (Some ''raw_material'');
            storage_hhi = calculate_hhi locations (Some ''supplier'');
            material_countries = countries_of_type locations ''raw_material'';
            manufacturing_countries = countries_of_type locations ''manufacturing'';
            storage_countries = countries_of_type locations ''supplier'';
            overlap_m2m = overlap_ratio material_countries manufacturing_countries;
            overlap_manu_to_store = overlap_ratio manufacturing_countries storage_countries;
            base_seg_m2m = (materials_hhi + manufacturing_hhi) / 2;
            base_seg_manu_to_store = (manufacturing_hhi + storage_hhi) / 2;
            adj_seg_m2m = adjusted_segment_hhi base_seg_m2m overlap_m2m;
            adj_seg_manu_to_store =
              adjusted_segment_hhi base_seg_manu_to_store overlap_manu_to_store;
            countries = remdups (map country_of locations);
            country_distribution = count_countries locations;
            concentration_risk = concentration_level overall_hhi;
            risk_factors1 =
              (if overall_hhi \<ge> 0.5
               then [HighGeographicConcentration (round3 overall_hhi)] else []);
            risk_factors2 =
              (if length countries \<le> 2
               then risk_factors1 @ [LimitedGeographicDiversity (length countries)]
               else risk_factors1);
            high_risk_countries = collect_high_risk_countries countries;
            risk_factors =
              (if high_risk_countries \<noteq> []
               then risk_factors2 @ [HighRiskCountries (map hrc_country high_risk_countries)]
               else risk_factors2)
        in \<lparr>geo_total_locations = length locations,
            geo_countries = length countries,
            geo_hhi = round3 overall_hhi,
            geo_concentration_risk = concentration_risk,
            geo_country_distribution = country_distribution,
            geo_hhi_by_type = Some
              \<lparr>hbt_manufacturing = round3 manufacturing_hhi,
               hbt_materials = round3 materials_hhi,
               hbt_storage = round3 storage_hhi\<rparr>,
            geo_hhi_by_segment = Some
              \<lparr>materials_to_manufacturing =
                 \<lparr>seg_base_hhi = round3 base_seg_m2m,
                  seg_adjusted_hhi = round3 adj_seg_m2m,
                  seg_overlap_ratio = round3 overlap_m2m\<rparr>,
               manufacturing_to_storage =
                 \<lparr>seg_base_hhi = round3 base_seg_manu_to_store,
                  seg_adjusted_hhi = round3 adj_seg_manu_to_store,
                  seg_overlap_ratio = round3 overlap_manu_to_store\<rparr>\<rparr>,
            geo_risk_factors = risk_factors,
            geo_high_risk_countries = Some high_risk_countries\<rparr>)"

subsection \<open>Exposure assessors (\<open>_assess_climate_risk\<close>, \<open>_assess_geopolitical_risk\<close>)\<close>

record high_risk_location =
  hrl_name :: string
  hrl_country :: string
  hrl_risk_level :: rat
  hrl_type :: string

text \<open>The early return for an empty list has no \<open>risk_level\<close> key.\<close>

record exposure_result =
  exp_average_risk :: rat
  exp_high_risk_locations :: "high_risk_location list"
  exp_risk_level :: "string option"

text \<open>
  The two assessors have the same loop body and differ in the table they read. The body
  is written once, with the table as its argument; the state of the loop is the pair
  \<open>(total_risk, high_risk_locations)\<close>.
\<close>

definition exposure_step ::
  "(string \<times> rat) list \<Rightarrow> location \<Rightarrow> rat \<times> high_risk_location list
     \<Rightarrow> rat \<times> high_risk_location list" where
  "exposure_step tbl location st =
     (let total_risk = fst st;
          high_risk_locations = snd st;
          country = country_of location;
          risk = dict_get tbl country 0.5
      in (total_risk + risk,
          if risk \<ge> 0.7
          then high_risk_locations @
                 [\<lparr>hrl_name = (case loc_name location of None \<Rightarrow> ''Unknown'' | Some n \<Rightarrow> n),
                   hrl_country = country,
                   hrl_risk_level = risk,
                   hrl_type = (case loc_type location of None \<Rightarrow> ''unknown'' | Some t \<Rightarrow> t)\<rparr>]
          else high_risk_locations))"

definition exposure_level :: "rat \<Rightarrow> string" where
  "exposure_level average_risk =
     (if average_risk \<ge> 0.6 then ''high''
      else if average_risk \<ge> 0.4 then ''moderate'' else ''low'')"

definition assess_climate_risk :: "location list \<Rightarrow> exposure_result" where
  "assess_climate_risk locations =
     (if locations = [] then
        \<lparr>exp_average_risk = 0, exp_high_risk_locations = [], exp_risk_level = None\<rparr>
      else
        let st = fold (exposure_step climate_risk_data) locations (0, []);
            average_risk = fst st / of_nat (length locations)
        in \<lparr>exp_average_risk = round3 average_risk,
            exp_high_risk_locations = snd st,
            exp_risk_level = Some (exposure_level average_risk)\<rparr>)"

definition assess_geopolitical_risk :: "location list \<Rightarrow> exposure_result" where
  "assess_geopolitical_risk locations =
     (if locations = [] then
        \<lparr>exp_average_risk = 0, exp_high_risk_locations = [], exp_risk_level = None\<rparr>
      else
        let st = fold (exposure_step geopolitical_risk_data) locations (0, []);
            average_risk = fst st / of_nat (length locations)
        in \<lparr>exp_average_risk = round3 average_risk,
            exp_high_risk_locations = snd st,
            exp_risk_level = Some (exposure_level average_risk)\<rparr>)"

subsection \<open>Lead-time texts\<close>

text \<open>
  Text is a list of 8-bit characters and is read as ASCII: the letters that
  \<open>str.lower\<close> changes are \<open>A\<close> to \<open>Z\<close>, the digits that \<open>\d\<close> matches are \<open>0\<close> to \<open>9\<close>,
  and the white space of \<open>str.strip\<close> and \<open>\s\<close> is the ASCII white space of Python
  (codes 9 to 13, 28 to 31 and 32). Characters beyond ASCII are outside the model.
\<close>

definition is_space :: "char \<Rightarrow> bool" where
  "is_space c = (let n = (of_char c :: nat) in (9 \<le> n \<and> n \<le> 13) \<or> (28 \<le> n \<and> n \<le> 32))"

definition is_digit :: "char \<Rightarrow> bool" where
  "is_digit c = (let n = (of_char c :: nat) in 48 \<le> n \<and> n \<le> 57)"

definition lower_char :: "char \<Rightarrow> char" where
  "lower_char c = (let n = (of_char c :: nat) in if 65 \<le> n \<and> n \<le> 90 then char_of (n + 32) else c)"

definition lower :: "string \<Rightarrow> string" where
  "lower s = map lower_char s"

definition strip :: "string \<Rightarrow> string" where
  "strip s = rev (dropWhile is_space (rev (dropWhile is_space s)))"

definition starts_with :: "string \<Rightarrow> string \<Rightarrow> bool" where
  "starts_with p s = (take (length p) s = p)"

text \<open>\<open>needle in text\<close>\<close>

fun contains :: "string \<Rightarrow> string \<Rightarrow> bool" where
  "contains needle [] = (needle = [])"
| "contains needle (c # cs) = (starts_with needle (c # cs) \<or> contains needle cs)"

text \<open>\<open>int(digits)\<close> for a string of decimal digits\<close>

definition int_of_digits :: "string \<Rightarrow> nat" where
  "int_of_digits ds = foldl (\<lambda>n c. 10 * n + (of_char c - 48)) 0 ds"

text \<open>\<open>float(g)\<close> for a string \<open>g\<close> of the shape \<open>\d+\.?\d*\<close>: the integer part plus the
  fraction, as an exact rational.\<close>

definition float_of_decimal :: "string \<Rightarrow> rat" where
  "float_of_decimal g =
     (let ip = takeWhile is_digit g;
          fp = drop 1 (dropWhile is_digit g)
      in of_nat (int_of_digits ip) + of_nat (int_of_digits fp) / 10 ^ length fp)"

text \<open>
  The regular expressions. \<open>match_weeks_at s\<close> is \<open>re.match(r'(\d+\.?\d*)\s*weeks?', s)\<close>
  and returns group 1. Every part of the pattern is followed by something that none of
  its own characters can start (a digit run by a dot, white space or \<open>w\<close>; white space by
  \<open>w\<close>), so backtracking to a shorter run never succeeds and the greedy choice is the
  only one; \<open>s?\<close> at the end does not change group 1. \<open>match_days_at\<close> is the same for
  \<open>(\d+)\s*days?\<close>. \<open>re_search\<close> tries every start position from the left, as
  \<open>re.search\<close> does.
\<close>

definition match_weeks_at :: "string \<Rightarrow> string option" where
  "match_weeks_at s =
     (let d1 = takeWhile is_digit s;
          r1 = dropWhile is_digit s
      in if d1 = [] then None
         else
           let g = (if starts_with ''.'' r1
                    then d1 @ ''.'' @ takeWhile is_digit (drop 1 r1) else d1);
               r2 = (if starts_with ''.'' r1 then dropWhile is_digit (drop 1 r1) else r1)
           in if starts_with ''week'' (dropWhile is_space r2) then Some g else None)"

definition match_days_at :: "string \<Rightarrow> string option" where
  "match_days_at s =
     (let d1 = takeWhile is_digit s;
          r1 = dropWhile is_digit s
      in if d1 = [] then None
         else if starts_with ''day'' (dropWhile is_space r1) then Some d1 else None)"

fun re_search :: "(string \<Rightarrow> string option) \<Rightarrow> string \<Rightarrow> string option" where
  "re_search m [] = m []"
| "re_search m (c # cs) =
     (case m (c # cs) of Some g \<Rightarrow> Some g | None \<Rightarrow> re_search m cs)"

text \<open>
  \<open>days / 5.0\<close> converts the integer \<open>days\<close> to a float first and raises
  \<open>OverflowError\<close> when it is too large for one, that is from \<open>2^1024 - 2^970\<close> on
  (the integers that round to \<open>2^1024\<close>); \<open>except Exception: pass\<close> then leads to
  \<open>return -1\<close>. \<open>float(m.group(1))\<close> raises nothing on a string of the shape
  \<open>\d+\.?\d*\<close>.
\<close>

definition float_int_limit :: nat where
  "float_int_limit = 2 ^ 1024 - 2 ^ 970"

definition in_stock_australia :: "string \<Rightarrow> bool" where
  "in_stock_australia t =
     (contains ''in stock australia'' t \<or> contains ''in-stock australia'' t)"

definition parse_weeks :: "string \<Rightarrow> rat" where
  "parse_weeks text =
     (if text = [] then - 1
      else
        let t = lower (strip text)
        in if in_stock_australia t then 0
           else
             case re_search match_weeks_at t of
               Some g \<Rightarrow> float_of_decimal g
             | None \<Rightarrow>
                 (case re_search match_days_at t of
                    Some g \<Rightarrow>
                      (let days = int_of_digits g
                       in if days < float_int_limit then of_nat days / 5 else - 1)
                  | None \<Rightarrow> - 1))"

definition risk_from_text :: "string \<Rightarrow> rat" where
  "risk_from_text text =
     (if text = [] then 0.5
      else
        let t = lower (strip text)
        in if in_stock_australia t then 0
           else
             let weeks = parse_weeks t
             in if weeks = 0 then 0
                else if weeks < 0 then 0.5
                else if weeks \<le> 3 then 0.2
                else if weeks \<le> 6 then 0.6
                else if weeks > 10 then 0.9
                else min 0.85 (0.6 + (max weeks 6 - 6) * (0.25 / 4)))"

subsection \<open>Lead-time batch (\<open>_assess_lead_time_risk\<close>)\<close>

text \<open>
  A product dictionary is read through \<open>name\<close> and \<open>raw\<close>, and \<open>raw\<close> through
  \<open>lead_time\<close>, \<open>leadTime\<close> and \<open>availability\<close>. \<open>None\<close> is a missing key (or the value
  \<open>None\<close>); the values are strings.
\<close>

record raw_product =
  raw_lead_time :: "string option"
  raw_leadTime :: "string option"
  raw_availability :: "string option"

record product =
  prod_name :: "string option"
  prod_raw :: "raw_product option"

record lead_time_item =
  item_product :: string
  item_lead_time :: string
  item_risk :: rat

record lead_time_result =
  lt_average_risk :: rat
  lt_items :: "lead_time_item list"

text \<open>\<open>a or b\<close> on optional strings: the first operand when it is truthy.\<close>

definition py_or :: "string option \<Rightarrow> string option \<Rightarrow> string option" where
  "py_or a b = (if truthy a then a else b)"

text \<open>\<open>raw.get('lead_time') or raw.get('leadTime') or raw.get('availability') or ''\<close>,
  with \<open>raw = p.get('raw', {})\<close>\<close>

definition lead_time_text :: "product \<Rightarrow> string" where
  "lead_time_text p =
     (case prod_raw p of
        None \<Rightarrow> []
      | Some raw \<Rightarrow>
          (case py_or (py_or (py_or (raw_lead_time raw) (raw_leadTime raw))
                  (raw_availability raw)) (Some []) of
             None \<Rightarrow> [] | Some lt \<Rightarrow> lt))"

text \<open>The body of \<open>for p in products\<close>; the state is \<open>(items, total, count)\<close>.\<close>

definition lead_time_step ::
  "product \<Rightarrow> lead_time_item list \<times> rat \<times> nat \<Rightarrow> lead_time_item list \<times> rat \<times> nat" where
  "lead_time_step p st =
     (let items = fst st; total = fst (snd st); count = snd (snd st);
          lt = lead_time_text p;
          score = risk_from_text lt
      in (items @ [\<lparr>item_product = (case prod_name p of None \<Rightarrow> ''Unknown'' | Some n \<Rightarrow> n),
                     item_lead_time = lt,
                     item_risk = round3 score\<rparr>],
          total + score, count + 1))"

definition assess_lead_time_risk :: "product list \<Rightarrow> lead_time_result" where
  "assess_lead_time_risk products =
     (if products = [] then \<lparr>lt_average_risk = 0, lt_items = []\<rparr>
      else
        let st = fold lead_time_step products ([], 0, 0);
            items = fst st; total = fst (snd st); count = snd (snd st);
            avg = (if count \<noteq> 0 then total / of_nat count else 0)
        in \<lparr>lt_average_risk = round3 avg, lt_items = items\<rparr>)"

subsection \<open>Composite score and recommendations\<close>

definition calculate_overall_risk_score_with_lead_time ::
  "geographic_result \<Rightarrow> lead_time_result \<Rightarrow> rat" where
  "calculate_overall_risk_score_with_lead_time geographic_risk lead_time_risk =
     (let hhi_score = geo_hhi geographic_risk;
          lt_score = lt_average_risk lead_time_risk
      in min (max (0.7 * hhi_score + 0.3 * lt_score) 0) 1)"

text \<open>
  A recommendation is a fixed text, or a fixed text followed by
  \<open>', '.join(set(high_risk_countries))\<close>; the joined names are kept as the set they come
  from, since Python does not fix the order in which a set is joined.
\<close>

datatype recommendation =
    Note string
  | NoteCountries string "string set"

definition generate_recommendations ::
  "geographic_result \<Rightarrow> exposure_result \<Rightarrow> exposure_result \<Rightarrow> recommendation list" where
  "generate_recommendations geographic_risk climate_risk geopolitical_risk =
     (let hhi = geo_hhi geographic_risk;
          r1 = (if hhi \<ge> 0.7 then
                  [Note ''Consider diversifying suppliers across more countries to reduce geographic concentration risk'']
                else if hhi \<ge> 0.5 then
                  [Note ''Monitor geographic concentration and consider adding suppliers in different regions'']
                else []);
          r2 = (if exp_risk_level climate_risk = Some ''high'' then
                  (let high_risk_countries = map hrl_country (exp_high_risk_locations climate_risk)
                   in r1 @ [Note ''Implement climate risk mitigation strategies for high-risk locations''] @
                      (if high_risk_countries \<noteq> [] then
                         [NoteCountries ''Consider alternative suppliers outside high climate risk countries: ''
                            (set high_risk_countries)]
                       else []))
                else r1);
          r3 = (if exp_risk_level geopolitical_risk = Some ''high'' then
                  (let high_risk_countries = map hrl_country (exp_high_risk_locations geopolitical_risk)
                   in r2 @ [Note ''Develop contingency plans for geopolitical disruptions in high-risk regions''] @
                      (if high_risk_countries \<noteq> [] then
                         [NoteCountries ''Monitor political stability in: '' (set high_risk_countries)]
                       else []))
                else r2)
      in if r3 = [] then
           [Note ''Supply chain risk levels are acceptable. Continue monitoring for changes.'']
         else r3)"

subsection \<open>Full assessment (\<open>assess_supply_chain_risk\<close>)\<close>

record concentration_summary =
  conc_hhi :: rat
  conc_concentration_level :: string
  conc_countries :: nat
  conc_country_distribution :: "(string \<times> nat) list"

text \<open>
  The returned dictionary. A sub-assessment field is \<open>None\<close> for the empty dictionary
  \<open>{}\<close> of the early return; \<open>lead_time_risk\<close> is \<open>None\<close> there because the key is
  missing. The key \<open>assessment_timestamp\<close> always holds \<open>None\<close> (the result of
  \<open>logger.info\<close>) and is left out.
\<close>

record assessment =
  overall_risk :: string
  risk_score :: rat
  geographic_risk :: "geographic_result option"
  climate_risk :: "exposure_result option"
  geopolitical_risk :: "exposure_result option"
  lead_time_risk :: "lead_time_result option"
  concentration_risk :: "concentration_summary option"
  recommendations :: "recommendation list"

definition overall_risk_level :: "rat \<Rightarrow> string" where
  "overall_risk_level score =
     (if score \<ge> 0.8 then ''very_high''
      else if score \<ge> 0.6 then ''high''
      else if score \<ge> 0.4 then ''moderate''
      else if score \<ge> 0.2 then ''low''
      else ''very_low'')"

text \<open>The argument \<open>products\<close> defaults to \<open>None\<close>, and \<open>products or []\<close> is passed on.\<close>

definition assess_supply_chain_risk ::
  "location list \<Rightarrow> product list option \<Rightarrow> assessment" where
  "assess_supply_chain_risk locations products =
     (if locations = [] then
        \<lparr>overall_risk = ''unknown'', risk_score = 0, geographic_risk = None,
         climate_risk = None, geopolitical_risk = None, lead_time_risk = None,
         concentration_risk = None,
         recommendations = [Note ''No locations available for risk assessment'']\<rparr>
      else
        let geographic = assess_geographic_risk locations;
            climate = assess_climate_risk locations;
            geopolitical = assess_geopolitical_risk locations;
            lead_time = assess_lead_time_risk (case products of None \<Rightarrow> [] | Some ps \<Rightarrow> ps);
            score = calculate_overall_risk_score_with_lead_time geographic lead_time;
            level = overall_risk_level score;
            recs = generate_recommendations geographic climate geopolitical
        in \<lparr>overall_risk = level,
            risk_score = round3 score,
            geographic_risk = Some geographic,
            climate_risk = Some climate,
            geopolitical_risk = Some geopolitical,
            lead_time_risk = Some lead_time,
            concentration_risk = Some
              \<lparr>conc_hhi = geo_hhi geographic,
               conc_concentration_level = geo_concentration_risk geographic,
               conc_countries = geo_countries geographic,
               conc_country_distribution = geo_country_distribution geographic\<rparr>,
            recommendations = recs\<rparr>)"

subsection \<open>Definitions used in the statements and proofs\<close>

text \<open>
  \<open>counter_inv kvs cs\<close>: the counter \<open>kvs\<close> holds exactly the keys of \<open>cs\<close>, each once,
  with the number of its occurrences in \<open>cs\<close>. It is the invariant of the counting loop.
\<close>

definition counter_inv :: "(string \<times> nat) list \<Rightarrow> string list \<Rightarrow> bool" where
  "counter_inv kvs cs \<longleftrightarrow> distinct (map fst kvs) \<and> fst ` set kvs = set cs \<and> (\<forall>c \<in> set cs. map_of kvs c = Some (count_list cs c))"

text \<open>
  The list \<open>filtered_locations\<close> of \<open>calculate_hhi\<close>, as the source computes it.
\<close>

definition code_filtered :: "location list \<Rightarrow> string option \<Rightarrow> location list" where
  "code_filtered locations location_type =
     (if truthy location_type
               then filter (\<lambda>loc. loc_type loc = location_type) locations
               else locations)"

text \<open>
  The statements of the specification. \<open>spec_filtered\<close> is the list after filtering by a
  given segment type, and \<open>spec_hhi\<close> is the sum over the countries of the squared share
  \<open>count_in_country / total\<close>, for the list \<open>cs\<close> of the countries of the locations.
\<close>

definition spec_filtered :: "location list \<Rightarrow> string option \<Rightarrow> location list" where
  "spec_filtered locations location_type =
     (case location_type of None \<Rightarrow> locations
      | Some t \<Rightarrow> filter (\<lambda>loc. loc_type loc = Some t) locations)"

definition spec_hhi :: "string list \<Rightarrow> rat" where
  "spec_hhi cs = (\<Sum>c\<in>set cs. (of_nat (count_list cs c) / of_nat (length cs))\<^sup>2)"














text \<open>
  The lead-time classifier as the specification words it. \<open>spec_extract_weeks\<close> is the
  week count: a \<open><number> week(s)\<close> pattern when there is one, else a \<open><number> day(s)\<close>
  pattern divided by 5. \<open>spec_classify_weeks\<close> is the classification of a week count,
  and \<open>spec_risk_from_text\<close> the whole rule.
\<close>

definition spec_extract_weeks :: "string \<Rightarrow> rat option" where
  "spec_extract_weeks t =
     (case re_search match_weeks_at t of
        Some g \<Rightarrow> Some (float_of_decimal g)
      | None \<Rightarrow>
          (case re_search match_days_at t of
             Some g \<Rightarrow> Some (of_nat (int_of_digits g) / 5)
           | None \<Rightarrow> None))"

definition spec_classify_weeks :: "rat \<Rightarrow> rat" where
  "spec_classify_weeks weeks =
     (if weeks \<le> 3 then 0.2
      else if weeks \<le> 6 then 0.6
      else if weeks > 10 then 0.9
      else min 0.85 (0.6 + (weeks - 6) * 0.0625))"

definition spec_risk_from_text :: "string \<Rightarrow> rat" where
  "spec_risk_from_text text =
     (if in_stock_australia (lower (strip text)) then 0
      else case spec_extract_weeks (lower (strip text)) of
             None \<Rightarrow> 0.5
           | Some weeks \<Rightarrow> spec_classify_weeks weeks)"

text \<open>
  The classifier as amended: a day count too large for a float counts as no pattern,
  and a week count of exactly 0 gives the risk 0.
\<close>

definition amended_extract_weeks :: "string \<Rightarrow> rat option" where
  "amended_extract_weeks t =
     (case re_search match_weeks_at t of
        Some g \<Rightarrow> Some (float_of_decimal g)
      | None \<Rightarrow>
          (case re_search match_days_at t of
             Some g \<Rightarrow>
               (if int_of_digits g < float_int_limit
                then Some (of_nat (int_of_digits g) / 5) else None)
           | None \<Rightarrow> None))"

definition amended_risk_from_text :: "string \<Rightarrow> rat" where
  "amended_risk_from_text text =
     (if in_stock_australia (lower (strip text)) then 0
      else case amended_extract_weeks (lower (strip text)) of
             None \<Rightarrow> 0.5
           | Some weeks \<Rightarrow> if weeks = 0 then 0 else spec_classify_weeks weeks)"

section \<open>Properties\<close>

subsection \<open>The counting loop\<close>

lemma counter_incr_keys: "map fst (counter_incr kvs c) = (if c \<in> fst ` set kvs then map fst kvs else map fst kvs @ [c])"
  by (induction kvs c rule: counter_incr.induct) auto

lemma counter_incr_distinct: "distinct (map fst kvs) \<Longrightarrow> distinct (map fst (counter_incr kvs c))"
  by (simp add: counter_incr_keys)

lemma counter_incr_set: "fst ` set (counter_incr kvs c) = insert c (fst ` set kvs)"
  using counter_incr_keys[of kvs c] by (metis (no_types, lifting) insert_absorb list.set_map set_append list.simps(15) Un_insert_right sup_bot.right_neutral empty_set)

lemma counter_incr_map_of:
  "map_of (counter_incr kvs c) = (map_of kvs)(c \<mapsto> (case map_of kvs c of None \<Rightarrow> 1 | Some n \<Rightarrow> n + 1))"
  by (induction kvs c rule: counter_incr.induct) (auto simp: fun_eq_iff)

lemma counter_inv_step:
  assumes "counter_inv kvs cs"
  shows "counter_inv (counter_incr kvs c) (cs @ [c])"
proof -
  have d: "distinct (map fst kvs)" and s: "fst ` set kvs = set cs"
    and m: "\<And>x. x \<in> set cs \<Longrightarrow> map_of kvs x = Some (count_list cs x)"
    using assms by (auto simp: counter_inv_def)
  have none: "map_of kvs x = None" if "x \<notin> set cs" for x
    using that s by (simp add: map_of_eq_None_iff)
  have "map_of (counter_incr kvs c) x = Some (count_list (cs @ [c]) x)"
    if "x \<in> set (cs @ [c])" for x
  proof (cases "x = c")
    case True
    show ?thesis
    proof (cases "c \<in> set cs")
      case True
      with \<open>x = c\<close> m[of c] show ?thesis by (simp add: counter_incr_map_of)
    next
      case False
      then have "count_list cs c = 0" by (simp add: count_list_0_iff)
      with \<open>x = c\<close> none[OF False] show ?thesis by (simp add: counter_incr_map_of)
    qed
  next
    case False
    with that have "x \<in> set cs" by simp
    with False m[of x] show ?thesis by (simp add: counter_incr_map_of)
  qed
  then show ?thesis
    unfolding counter_inv_def
    using counter_incr_distinct[OF d, of c] counter_incr_set[of kvs c] s by auto
qed

lemma counter_fold_inv:
  "counter_inv acc pre \<Longrightarrow> counter_inv (fold (\<lambda>location country_counts. counter_incr country_counts (country_of location)) locs acc) (pre @ map country_of locs)"
proof (induction locs arbitrary: acc pre)
  case Nil then show ?case by simp
next
  case (Cons l ls)
  from counter_inv_step[OF Cons.prems, of "country_of l"]
  have "counter_inv (counter_incr acc (country_of l)) (pre @ [country_of l])" .
  from Cons.IH[OF this] show ?case by simp
qed

lemma count_countries_inv: "counter_inv (count_countries locs) (map country_of locs)"
proof -
  have "counter_inv [] []" by (simp add: counter_inv_def)
  from counter_fold_inv[OF this, of locs] show ?thesis by (simp add: count_countries_def)
qed

lemma fold_add_sum_list: "fold (\<lambda>x (acc::rat). acc + f x) xs a = a + sum_list (map f xs)"
  by (induction xs arbitrary: a) (simp_all add: add.assoc)

lemma sum_over_counter:
  assumes "counter_inv kvs cs"
  shows "sum_list (map (\<lambda>n. g n) (map snd kvs)) = (\<Sum>c\<in>set cs. (g (count_list cs c) :: rat))"
proof -
  have d: "distinct (map fst kvs)" and s: "fst ` set kvs = set cs"
    and m: "\<forall>c \<in> set cs. map_of kvs c = Some (count_list cs c)"
    using assms by (auto simp: counter_inv_def)
  have "\<forall>kv \<in> set kvs. snd kv = count_list cs (fst kv)"
  proof
    fix kv assume kv: "kv \<in> set kvs"
    then have "map_of kvs (fst kv) = Some (snd kv)" using d by (simp add: map_of_eq_Some_iff)
    moreover have "fst kv \<in> set cs" using kv s by auto
    ultimately show "snd kv = count_list cs (fst kv)" using m by auto
  qed
  then have "map (\<lambda>n. g n) (map snd kvs) = map (\<lambda>c. g (count_list cs c)) (map fst kvs)"
    unfolding map_map by (intro map_cong[OF refl]) simp
  then have "sum_list (map (\<lambda>n. g n) (map snd kvs)) = sum_list (map (\<lambda>c. g (count_list cs c)) (map fst kvs))"
    by (rule arg_cong)
  also have "\<dots> = (\<Sum>c\<in>set (map fst kvs). g (count_list cs c))"
    by (rule sum_list_distinct_conv_sum_set[OF d])
  also have "set (map fst kvs) = set cs" using s by simp
  finally show ?thesis .
qed

lemma code_filtered_spec: "location_type \<noteq> Some [] \<Longrightarrow> code_filtered locations location_type = spec_filtered locations location_type"
  by (auto simp: code_filtered_def spec_filtered_def truthy_def split: option.splits)

lemma spec_hhi_Nil: "spec_hhi [] = 0" by (simp add: spec_hhi_def)

lemma hhi_nonempty:
  assumes "locs \<noteq> []"
  shows "fold (\<lambda>count hhi. hhi + (of_nat count / of_nat (length locs))\<^sup>2) (map snd (count_countries locs)) 0
     = spec_hhi (map country_of locs)"
proof -
  let ?g = "\<lambda>n::nat. (of_nat n / of_nat (length locs) :: rat)\<^sup>2"
  have "fold (\<lambda>count hhi. hhi + ?g count) (map snd (count_countries locs)) 0
        = sum_list (map ?g (map snd (count_countries locs)))"
    by (simp add: fold_add_sum_list)
  also have "\<dots> = (\<Sum>c\<in>set (map country_of locs). ?g (count_list (map country_of locs) c))"
    by (rule sum_over_counter[OF count_countries_inv])
  finally show ?thesis by (simp add: spec_hhi_def)
qed

lemma calculate_hhi_code_filtered:
  "calculate_hhi locations location_type = spec_hhi (map country_of (code_filtered locations location_type))"
proof (cases "code_filtered locations location_type = []")
  case True
  then show ?thesis by (auto simp: calculate_hhi_def code_filtered_def spec_hhi_Nil Let_def)
next
  case False
  then have ne: "locations \<noteq> []" by (auto simp: code_filtered_def split: if_splits)
  show ?thesis
    using False ne hhi_nonempty[OF False]
    by (simp add: calculate_hhi_def code_filtered_def[symmetric] Let_def)
qed

lemma spec_hhi_share_sum:
  assumes "cs \<noteq> []"
  shows "(\<Sum>c\<in>set cs. (of_nat (count_list cs c) / of_nat (length cs) :: rat)) = 1"
proof -
  have "(\<Sum>c\<in>set cs. (of_nat (count_list cs c) / of_nat (length cs) :: rat))
        = (\<Sum>c\<in>set cs. of_nat (count_list cs c)) / of_nat (length cs)"
    by (simp add: sum_divide_distrib)
  also have "(\<Sum>c\<in>set cs. (of_nat (count_list cs c) :: rat)) = of_nat (\<Sum>c\<in>set cs. count_list cs c)"
    by simp
  also have "(\<Sum>c\<in>set cs. count_list cs c) = length cs"
    by (rule sum_count_set) simp_all
  finally show ?thesis using assms by simp
qed

lemma share_bounds:
  "0 \<le> (of_nat (count_list cs c) / of_nat (length cs) :: rat)"
  "(of_nat (count_list cs c) / of_nat (length cs) :: rat) \<le> 1"
proof -
  show "0 \<le> (of_nat (count_list cs c) / of_nat (length cs) :: rat)" by simp
  have "count_list cs c \<le> length cs" by (rule count_le_length)
  then show "(of_nat (count_list cs c) / of_nat (length cs) :: rat) \<le> 1"
    by (cases "cs = []") (simp_all add: divide_le_eq)
qed

lemma share_sq_le:
  "(of_nat (count_list cs c) / of_nat (length cs) :: rat)\<^sup>2 \<le> of_nat (count_list cs c) / of_nat (length cs)"
proof -
  let ?x = "(of_nat (count_list cs c) / of_nat (length cs) :: rat)"
  have "?x * ?x \<le> ?x" by (rule mult_left_le_one_le) (rule share_bounds)+
  then show ?thesis by (simp only: power2_eq_square)
qed

lemma spec_hhi_bounds: "0 \<le> spec_hhi cs \<and> spec_hhi cs \<le> 1"
proof (cases "cs = []")
  case True then show ?thesis by (simp add: spec_hhi_Nil)
next
  case False
  have "0 \<le> spec_hhi cs" unfolding spec_hhi_def by (rule sum_nonneg) simp
  moreover have "spec_hhi cs \<le> (\<Sum>c\<in>set cs. (of_nat (count_list cs c) / of_nat (length cs) :: rat))"
    unfolding spec_hhi_def by (rule sum_mono) (rule share_sq_le)
  ultimately show ?thesis using spec_hhi_share_sum[OF False] by simp
qed

lemma sq_eq_self: "(x::rat)\<^sup>2 = x \<Longrightarrow> x \<noteq> 0 \<Longrightarrow> x = 1"
  by (simp add: power2_eq_square)

lemma spec_hhi_one_iff:
  assumes "cs \<noteq> []"
  shows "spec_hhi cs = 1 \<longleftrightarrow> (\<forall>a\<in>set cs. \<forall>b\<in>set cs. a = b)"
proof
  assume one: "spec_hhi cs = 1"
  let ?s = "\<lambda>c. (of_nat (count_list cs c) / of_nat (length cs) :: rat)"
  have eq: "(\<Sum>c\<in>set cs. (?s c)\<^sup>2) = (\<Sum>c\<in>set cs. ?s c)"
    using one spec_hhi_share_sum[OF assms] by (simp add: spec_hhi_def)
  have full: "count_list cs c = length cs" if c: "c \<in> set cs" for c
  proof -
    have "(?s c)\<^sup>2 = ?s c"
      by (rule sum_mono_inv[OF eq _ c]) (simp_all add: share_sq_le)
    moreover have "?s c \<noteq> 0" using c assms by (simp add: count_list_0_iff)
    ultimately have "?s c = 1" by (rule sq_eq_self)
    moreover have "(of_nat (length cs) :: rat) \<noteq> 0" using assms by simp
    ultimately have "(of_nat (count_list cs c) :: rat) = of_nat (length cs)"
      by (simp only: divide_eq_1_iff)
    then show ?thesis by (simp only: of_nat_eq_iff)
  qed
  show "\<forall>a\<in>set cs. \<forall>b\<in>set cs. a = b"
  proof (intro ballI)
    fix a b assume a: "a \<in> set cs" and b: "b \<in> set cs"
    have "length (filter ((=) a) cs) = length cs"
      using full[OF a] by (simp add: count_list_eq_length_filter)
    then have "length (filter (\<lambda>x. a \<noteq> x) cs) = 0"
      using sum_length_filter_compl[of "(=) a" cs] by simp
    then have "\<forall>x\<in>set cs. a = x" by (simp add: filter_empty_conv)
    then show "a = b" using b by blast
  qed
next
  assume same: "\<forall>a\<in>set cs. \<forall>b\<in>set cs. a = b"
  obtain a where a: "a \<in> set cs" using assms by (cases cs) auto
  have s: "set cs = {a}" using same a by auto
  have "filter ((=) a) cs = cs" using s by (simp add: filter_True)
  then have "count_list cs a = length cs" by (simp add: count_list_eq_length_filter)
  then show "spec_hhi cs = 1" using assms by (simp add: spec_hhi_def s)
qed

lemma spec_hhi_even:
  assumes "cs \<noteq> []" and "\<forall>c\<in>set cs. count_list cs c = m"
  shows "spec_hhi cs = 1 / of_nat (card (set cs))"
proof -
  have len: "length cs = card (set cs) * m"
  proof -
    have "length cs = (\<Sum>c\<in>set cs. count_list cs c)" by (rule sum_count_set[symmetric]) simp_all
    also have "\<dots> = (\<Sum>c\<in>set cs. m)" using assms(2) by simp
    finally show ?thesis by simp
  qed
  have "length cs \<noteq> 0" using assms(1) by simp
  then have "card (set cs) * m \<noteq> 0" using len by simp
  then have m: "m \<noteq> 0" and n: "card (set cs) \<noteq> 0" by simp_all
  have "spec_hhi cs = (\<Sum>c\<in>set cs. (of_nat m / of_nat (length cs) :: rat)\<^sup>2)"
    unfolding spec_hhi_def using assms(2) by simp
  also have "\<dots> = of_nat (card (set cs)) * (of_nat m / of_nat (card (set cs) * m))\<^sup>2"
    by (simp add: len)
  also have "\<dots> = 1 / of_nat (card (set cs))"
    using m n by (simp add: power2_eq_square field_simps)
  finally show ?thesis .
qed

subsection \<open>Concentration index\<close>

text \<open>
  Claim C2. For every location list and optional segment-type filter (a given segment
  type is a non-empty string), \<open>calculate_hhi\<close> returns the sum over the countries of
  \<open>(count_in_country / total_filtered_locations)\<^sup>2\<close>, the locations being grouped by their
  country field; when the list, or the list left by the filter, is empty it returns 0.
\<close>

theorem calculate_hhi_formula:
  "location_type \<noteq> Some [] \<Longrightarrow>
     calculate_hhi locations location_type =
       spec_hhi (map country_of (spec_filtered locations location_type)) \<and>
     (spec_filtered locations location_type = [] \<longrightarrow>
        calculate_hhi locations location_type = 0)"
  by (simp add: calculate_hhi_code_filtered code_filtered_spec spec_hhi_Nil)

theorem calculate_hhi_formula_witness:
  "calculate_hhi
     [\<lparr>loc_type = Some ''manufacturing'', loc_name = Some ''Plant A'', loc_country = Some ''China''\<rparr>,
      \<lparr>loc_type = Some ''manufacturing'', loc_name = Some ''Plant B'', loc_country = Some ''China''\<rparr>,
      \<lparr>loc_type = Some ''supplier'', loc_name = Some ''Depot'', loc_country = Some ''Japan''\<rparr>,
      \<lparr>loc_type = Some ''manufacturing'', loc_name = Some ''Plant C'', loc_country = Some ''Australia''\<rparr>]
     (Some ''manufacturing'') = 5 / 9 \<and>
   calculate_hhi
     [\<lparr>loc_type = Some ''supplier'', loc_name = Some ''Depot'', loc_country = Some ''Japan''\<rparr>]
     (Some ''manufacturing'') = 0"
  using
    calculate_hhi_formula [of "Some ''manufacturing''"
      "[\<lparr>loc_type = Some ''manufacturing'', loc_name = Some ''Plant A'', loc_country = Some ''China''\<rparr>,
        \<lparr>loc_type = Some ''manufacturing'', loc_name = Some ''Plant B'', loc_country = Some ''China''\<rparr>,
        \<lparr>loc_type = Some ''supplier'', loc_name = Some ''Depot'', loc_country = Some ''Japan''\<rparr>,
        \<lparr>loc_type = Some ''manufacturing'', loc_name = Some ''Plant C'', loc_country = Some ''Australia''\<rparr>]"]
    calculate_hhi_formula [of "Some ''manufacturing''"
      "[\<lparr>loc_type = Some ''supplier'', loc_name = Some ''Depot'', loc_country = Some ''Japan''\<rparr>]"]
  by (simp add: spec_hhi_def spec_filtered_def country_of_def power2_eq_square)

text \<open>
  Claim C5. The index lies in \<open>[0, 1]\<close> for every location list; for a non-empty
  (filtered) list it is 1 exactly when all locations share one country; and when each
  of the \<open>n\<close> countries present holds the same number \<open>m\<close> of locations it is \<open>1 / n\<close>.
\<close>

theorem calculate_hhi_bounds:
  "0 \<le> calculate_hhi locations location_type \<and>
   calculate_hhi locations location_type \<le> 1 \<and>
   (location_type \<noteq> Some [] \<and> spec_filtered locations location_type \<noteq> [] \<longrightarrow>
      (calculate_hhi locations location_type = 1 \<longleftrightarrow>
         (\<forall>a\<in>set (spec_filtered locations location_type).
          \<forall>b\<in>set (spec_filtered locations location_type). country_of a = country_of b))) \<and>
   (location_type \<noteq> Some [] \<and> spec_filtered locations location_type \<noteq> [] \<and>
    (\<forall>c\<in>set (map country_of (spec_filtered locations location_type)).
        count_list (map country_of (spec_filtered locations location_type)) c = m) \<longrightarrow>
      calculate_hhi locations location_type =
        1 / of_nat (card (set (map country_of (spec_filtered locations location_type)))))"
proof (intro conjI impI)
  show "0 \<le> calculate_hhi locations location_type"
    by (simp add: calculate_hhi_code_filtered spec_hhi_bounds)
  show "calculate_hhi locations location_type \<le> 1"
    by (simp add: calculate_hhi_code_filtered spec_hhi_bounds)
next
  assume a: "location_type \<noteq> Some [] \<and> spec_filtered locations location_type \<noteq> []"
  let ?cs = "map country_of (spec_filtered locations location_type)"
  have "?cs \<noteq> []" using a by simp
  from spec_hhi_one_iff [OF this]
  have "spec_hhi ?cs = 1 \<longleftrightarrow>
      (\<forall>a\<in>set (spec_filtered locations location_type).
       \<forall>b\<in>set (spec_filtered locations location_type). country_of a = country_of b)"
    by simp
  then show "calculate_hhi locations location_type = 1 \<longleftrightarrow>
      (\<forall>a\<in>set (spec_filtered locations location_type).
       \<forall>b\<in>set (spec_filtered locations location_type). country_of a = country_of b)"
    using a by (simp add: calculate_hhi_code_filtered code_filtered_spec)
next
  let ?cs = "map country_of (spec_filtered locations location_type)"
  assume a: "location_type \<noteq> Some [] \<and> spec_filtered locations location_type \<noteq> [] \<and>
    (\<forall>c\<in>set ?cs. count_list ?cs c = m)"
  then have ne: "?cs \<noteq> []" and ev: "\<forall>c\<in>set ?cs. count_list ?cs c = m" by simp_all
  from spec_hhi_even [OF ne ev] a
  show "calculate_hhi locations location_type = 1 / of_nat (card (set ?cs))"
    by (simp add: calculate_hhi_code_filtered code_filtered_spec)
qed

theorem calculate_hhi_bounds_witness:
  "calculate_hhi
     [\<lparr>loc_type = Some ''manufacturing'', loc_name = Some ''Plant A'', loc_country = Some ''China''\<rparr>,
      \<lparr>loc_type = Some ''raw_material'', loc_name = Some ''Mine'', loc_country = Some ''Australia''\<rparr>,
      \<lparr>loc_type = Some ''supplier'', loc_name = Some ''Depot'', loc_country = Some ''Japan''\<rparr>]
     None = 1 / 3 \<and>
   calculate_hhi
     [\<lparr>loc_type = Some ''manufacturing'', loc_name = Some ''Plant A'', loc_country = Some ''China''\<rparr>,
      \<lparr>loc_type = Some ''raw_material'', loc_name = Some ''Mine'', loc_country = Some ''China''\<rparr>]
     None = 1"
proof -
  let ?l3 = "[\<lparr>loc_type = Some ''manufacturing'', loc_name = Some ''Plant A'', loc_country = Some ''China''\<rparr>,
      \<lparr>loc_type = Some ''raw_material'', loc_name = Some ''Mine'', loc_country = Some ''Australia''\<rparr>,
      \<lparr>loc_type = Some ''supplier'', loc_name = Some ''Depot'', loc_country = Some ''Japan''\<rparr>]"
  let ?l2 = "[\<lparr>loc_type = Some ''manufacturing'', loc_name = Some ''Plant A'', loc_country = Some ''China''\<rparr>,
      \<lparr>loc_type = Some ''raw_material'', loc_name = Some ''Mine'', loc_country = Some ''China''\<rparr>]"
  have "calculate_hhi ?l3 None = 1 / 3"
    using calculate_hhi_bounds [of ?l3 None 1]
    by (simp add: spec_filtered_def country_of_def)
  moreover have "calculate_hhi ?l2 None = 1"
    using calculate_hhi_bounds [of ?l2 None 2]
    by (simp add: spec_filtered_def country_of_def)
  ultimately show ?thesis by simp
qed

subsection \<open>Geographic risk\<close>

text \<open>
  Claim C7. The concentration level of the geographic assessment is computed on the
  overall index with fixed thresholds: at least 0.7 gives \<open>very_high\<close>, at least 0.5
  \<open>high\<close>, at least 0.3 \<open>moderate\<close>, anything below \<open>low\<close>.
\<close>

theorem concentration_level_thresholds:
  "geo_concentration_risk (assess_geographic_risk locations) =
     (if calculate_hhi locations None \<ge> 0.7 then ''very_high''
      else if calculate_hhi locations None \<ge> 0.5 then ''high''
      else if calculate_hhi locations None \<ge> 0.3 then ''moderate''
      else ''low'')"
proof (cases "locations = []")
  case True
  then show ?thesis by (simp add: assess_geographic_risk_def calculate_hhi_def)
next
  case False
  then show ?thesis
    by (simp add: assess_geographic_risk_def Let_def concentration_level_def)
qed

theorem concentration_level_thresholds_witness:
  "geo_concentration_risk (assess_geographic_risk
     [\<lparr>loc_type = Some ''manufacturing'', loc_name = Some ''Plant A'', loc_country = Some ''China''\<rparr>,
      \<lparr>loc_type = Some ''manufacturing'', loc_name = Some ''Plant B'', loc_country = Some ''China''\<rparr>,
      \<lparr>loc_type = Some ''manufacturing'', loc_name = Some ''Plant C'', loc_country = Some ''Australia''\<rparr>])
   = ''high''"
proof -
  let ?l = "[\<lparr>loc_type = Some ''manufacturing'', loc_name = Some ''Plant A'', loc_country = Some ''China''\<rparr>,
      \<lparr>loc_type = Some ''manufacturing'', loc_name = Some ''Plant B'', loc_country = Some ''China''\<rparr>,
      \<lparr>loc_type = Some ''manufacturing'', loc_name = Some ''Plant C'', loc_country = Some ''Australia''\<rparr>]"
  have "calculate_hhi ?l None = 5 / 9"
    by (simp add: calculate_hhi_def truthy_def count_countries_def country_of_def
        power2_eq_square)
  with concentration_level_thresholds [of ?l] show ?thesis by simp
qed

text \<open>
  Claim C9. For a fixed base index (an index is never negative) the adjusted segment
  risk is antitone in the overlap ratio, and for a base and an overlap ratio in
  \<open>[0, 1]\<close> it lies between 0 and the base.
\<close>

theorem adjusted_segment_hhi_antitone:
  "0 \<le> base \<Longrightarrow>
     (overlap1 \<le> overlap2 \<longrightarrow>
        adjusted_segment_hhi base overlap2 \<le> adjusted_segment_hhi base overlap1) \<and>
     (base \<le> 1 \<and> 0 \<le> overlap \<and> overlap \<le> 1 \<longrightarrow>
        0 \<le> adjusted_segment_hhi base overlap \<and> adjusted_segment_hhi base overlap \<le> base)"
proof (intro conjI impI)
  assume b: "0 \<le> base" and le: "overlap1 \<le> overlap2"
  have "base * (1 - 1 / 2 * overlap2) \<le> base * (1 - 1 / 2 * overlap1)"
    using b le by (intro mult_left_mono) simp_all
  then show "adjusted_segment_hhi base overlap2 \<le> adjusted_segment_hhi base overlap1"
    by (simp add: adjusted_segment_hhi_def Let_def max_def)
next
  assume "0 \<le> base" and "base \<le> 1 \<and> 0 \<le> overlap \<and> overlap \<le> 1"
  show "0 \<le> adjusted_segment_hhi base overlap"
    by (simp add: adjusted_segment_hhi_def Let_def)
next
  assume b: "0 \<le> base" and o: "base \<le> 1 \<and> 0 \<le> overlap \<and> overlap \<le> 1"
  have "base * (1 - 1 / 2 * overlap) \<le> base * 1"
    using b o by (intro mult_left_mono) simp_all
  then show "adjusted_segment_hhi base overlap \<le> base"
    using b by (simp add: adjusted_segment_hhi_def Let_def)
qed

theorem adjusted_segment_hhi_antitone_witness:
  "adjusted_segment_hhi (3 / 4) 1 \<le> adjusted_segment_hhi (3 / 4) (1 / 2) \<and>
   0 \<le> adjusted_segment_hhi (3 / 4) (1 / 2) \<and>
   adjusted_segment_hhi (3 / 4) (1 / 2) \<le> 3 / 4"
  using adjusted_segment_hhi_antitone [of "3 / 4" "1 / 2" 1 "1 / 2"] by simp

subsection \<open>Empty inputs\<close>

text \<open>
  Claim C8. For an empty location list the full assessment returns at once: level
  \<open>unknown\<close>, score 0, empty sub-assessments and the single recommendation that no
  locations are available. For an empty product list the lead-time batch has average
  risk 0 and no items.
\<close>

theorem empty_inputs:
  "assess_supply_chain_risk [] products =
     \<lparr>overall_risk = ''unknown'', risk_score = 0, geographic_risk = None,
      climate_risk = None, geopolitical_risk = None, lead_time_risk = None,
      concentration_risk = None,
      recommendations = [Note ''No locations available for risk assessment'']\<rparr> \<and>
   assess_lead_time_risk [] = \<lparr>lt_average_risk = 0, lt_items = []\<rparr>"
  by (simp add: assess_supply_chain_risk_def assess_lead_time_risk_def)

theorem empty_inputs_witness:
  "overall_risk (assess_supply_chain_risk []
      (Some [\<lparr>prod_name = Some ''Tile'', prod_raw = None\<rparr>])) = ''unknown'' \<and>
   risk_score (assess_supply_chain_risk []
      (Some [\<lparr>prod_name = Some ''Tile'', prod_raw = None\<rparr>])) = 0 \<and>
   lt_items (assess_lead_time_risk []) = []"
  using empty_inputs [of "Some [\<lparr>prod_name = Some ''Tile'', prod_raw = None\<rparr>]"] by simp

subsection \<open>Exposure assessors\<close>










lemma geopolitical_Australia: "dict_get geopolitical_risk_data ''Australia'' (1 / 2) = 1 / 10"
  by code_simp

lemma geopolitical_Germany: "dict_get geopolitical_risk_data ''Germany'' (1 / 2) = 1 / 10"
  by code_simp

lemma geopolitical_India: "dict_get geopolitical_risk_data ''India'' (1 / 2) = 3 / 10"
  by code_simp


lemma floor_rat_numeral_div [simp]:
  "\<lfloor>numeral a / numeral b :: rat\<rfloor> = numeral a div numeral b"
  by (metis floor_divide_of_int_eq of_int_numeral)





subsection \<open>Segment pairs\<close>









subsection \<open>Lead-time batch and composite score\<close>


















subsection \<open>Rounding of the reported values\<close>



subsection \<open>Lead-time classifier\<close>

lemma is_space_lower_char: "is_space (lower_char c) = is_space c"
  by (auto simp: is_space_def lower_char_def Let_def)

lemma lower_char_idem: "lower_char (lower_char c) = lower_char c"
  by (auto simp: lower_char_def Let_def)

lemma lower_idem: "lower (lower s) = lower s"
  by (simp add: lower_def lower_char_idem)

lemma dropWhile_space_lower:
  "dropWhile is_space (map lower_char s) = map lower_char (dropWhile is_space s)"
proof -
  have "is_space \<circ> lower_char = is_space"
    by (rule ext) (simp add: is_space_lower_char)
  then show ?thesis by (simp add: dropWhile_map)
qed

lemma strip_lower: "strip (lower s) = lower (strip s)"
proof -
  have "strip (lower s) =
      rev (dropWhile is_space (rev (map lower_char (dropWhile is_space s))))"
    by (simp only: strip_def lower_def dropWhile_space_lower)
  also have "\<dots> = rev (dropWhile is_space (map lower_char (rev (dropWhile is_space s))))"
    by (simp only: rev_map)
  also have "\<dots> = rev (map lower_char (dropWhile is_space (rev (dropWhile is_space s))))"
    by (simp only: dropWhile_space_lower)
  also have "\<dots> = map lower_char (rev (dropWhile is_space (rev (dropWhile is_space s))))"
    by (simp only: rev_map)
  finally show ?thesis by (simp only: strip_def lower_def)
qed

lemma strip_idem: "strip (strip s) = strip s"
proof -
  define a where "a = dropWhile is_space s"
  define b where "b = dropWhile is_space (rev a)"
  have keep: "dropWhile is_space (rev b) = rev b"
  proof (cases "b = []")
    case True
    then show ?thesis by simp
  next
    case False
    have "rev a = takeWhile is_space (rev a) @ b" by (simp add: b_def)
    then have "a = rev b @ rev (takeWhile is_space (rev a))"
      by (metis rev_append rev_rev_ident)
    then have "hd a = hd (rev b)" using False by (metis hd_append2 rev_is_Nil_conv)
    moreover have "a \<noteq> []" using False by (auto simp: b_def)
    then have "\<not> is_space (hd a)" unfolding a_def by (rule hd_dropWhile)
    ultimately show ?thesis by (simp add: dropWhile_eq_self_iff)
  qed
  have idem: "dropWhile is_space b = b" by (simp add: b_def)
  have s: "strip s = rev b" by (simp add: strip_def a_def b_def)
  have "strip (rev b) = rev (dropWhile is_space (rev (dropWhile is_space (rev b))))"
    by (simp only: strip_def)
  also have "\<dots> = rev b" by (simp only: keep rev_rev_ident idem)
  finally show ?thesis by (simp only: s)
qed

lemma lower_strip_idem: "lower (strip (lower (strip text))) = lower (strip text)"
  by (simp add: strip_lower lower_idem strip_idem)

lemma float_of_decimal_nonneg: "0 \<le> float_of_decimal g"
  by (simp add: float_of_decimal_def Let_def)

lemma amended_extract_weeks_nonneg: "amended_extract_weeks t = Some w \<Longrightarrow> 0 \<le> w"
  by (auto simp: amended_extract_weeks_def float_of_decimal_nonneg
      split: option.splits if_splits)

lemma amended_extract_weeks_Nil: "amended_extract_weeks [] = None"
  by (simp add: amended_extract_weeks_def match_weeks_at_def match_days_at_def)

lemma parse_weeks_amended:
  assumes "t = lower (strip text)" and "\<not> in_stock_australia t"
  shows "parse_weeks t = (case amended_extract_weeks t of None \<Rightarrow> - 1 | Some w \<Rightarrow> w)"
proof (cases "t = []")
  case True
  then show ?thesis by (simp add: parse_weeks_def amended_extract_weeks_Nil)
next
  case False
  have "lower (strip t) = t" using assms(1) by (simp add: lower_strip_idem)
  then show ?thesis
    using False assms(2)
    by (simp add: parse_weeks_def amended_extract_weeks_def Let_def
        split: option.splits)
qed

lemma in_stock_australia_Nil: "\<not> in_stock_australia []"
  by (simp add: in_stock_australia_def)

lemma strip_Nil: "lower (strip []) = []"
  by (simp add: strip_def lower_def)

lemma risk_from_text_amended: "risk_from_text text = amended_risk_from_text text"
proof (cases "text = []")
  case True
  then show ?thesis
    by (simp add: risk_from_text_def amended_risk_from_text_def strip_Nil
        in_stock_australia_Nil amended_extract_weeks_Nil)
next
  case ne: False
  let ?t = "lower (strip text)"
  show ?thesis
  proof (cases "in_stock_australia ?t")
    case True
    then show ?thesis
      using ne by (simp add: risk_from_text_def amended_risk_from_text_def)
  next
    case False
    note pw = parse_weeks_amended [OF refl False]
    show ?thesis
    proof (cases "amended_extract_weeks ?t")
      case None
      then show ?thesis
        using ne False by (simp add: risk_from_text_def amended_risk_from_text_def pw)
    next
      case (Some w)
      then have "0 \<le> w" by (rule amended_extract_weeks_nonneg)
      then show ?thesis
        using ne False Some
        by (simp add: risk_from_text_def amended_risk_from_text_def pw
            spec_classify_weeks_def Let_def max_def)
    qed
  qed
qed

lemma interpolation_range:
  assumes "6 < (w::rat)"
  shows "0 \<le> min 0.85 (0.6 + (w - 6) * 0.0625) \<and> min 0.85 (0.6 + (w - 6) * 0.0625) \<le> 1"
proof -
  have "0 \<le> (w - 6) * 0.0625" using assms by simp
  then have "(0::rat) \<le> 0.6 + (w - 6) * 0.0625" by (rule add_nonneg_nonneg [rotated]) simp
  then have lo: "0 \<le> min 0.85 (0.6 + (w - 6) * 0.0625)" by (simp only: min.bounded_iff) simp
  have "min 0.85 (0.6 + (w - 6) * 0.0625) \<le> (0.85::rat)" by (rule min.cobounded1)
  also have "(0.85::rat) \<le> 1" by simp
  finally show ?thesis using lo by simp
qed

lemma spec_classify_weeks_range: "0 \<le> spec_classify_weeks w \<and> spec_classify_weeks w \<le> 1"
proof (cases "6 < w \<and> \<not> 10 < w")
  case True
  then have "spec_classify_weeks w = min 0.85 (0.6 + (w - 6) * 0.0625)"
    by (simp add: spec_classify_weeks_def)
  then show ?thesis using interpolation_range [of w] True by (simp only:)
next
  case False
  then show ?thesis by (auto simp: spec_classify_weeks_def)
qed

lemma amended_risk_from_text_range:
  "0 \<le> amended_risk_from_text text \<and> amended_risk_from_text text \<le> 1"
  using spec_classify_weeks_range
  by (simp add: amended_risk_from_text_def split: option.splits)

lemma risk_from_text_examples:
  "risk_from_text ''2 weeks'' = 0.2"
  "risk_from_text ''3 weeks'' = 0.2"
  "risk_from_text ''4 weeks'' = 0.6"
  "risk_from_text ''6 weeks'' = 0.6"
  "risk_from_text ''7 weeks'' = 0.6625"
  "risk_from_text ''11 weeks'' = 0.9"
  "risk_from_text ''In Stock Australia'' = 0"
  "risk_from_text [] = 0.5"
  by code_simp+

lemma risk_from_text_spec:
  assumes "amended_extract_weeks (lower (strip text)) = spec_extract_weeks (lower (strip text))"
    and "spec_extract_weeks (lower (strip text)) \<noteq> Some 0"
  shows "risk_from_text text = spec_risk_from_text text"
  using assms
  by (simp add: risk_from_text_amended amended_risk_from_text_def spec_risk_from_text_def
      split: option.splits)

text \<open>
  Claim C3, as stated, fails: a week count of exactly 0 is not classified as
  \<open>weeks \<le> 3\<close>. The text \<open>0 weeks\<close> has no in-stock phrase and the week count 0, for
  which the claim gives 0.2; the classifier returns 0.
\<close>

theorem zero_weeks_counterexample:
  "risk_from_text ''0 weeks'' = 0 \<and> spec_risk_from_text ''0 weeks'' = 1 / 5"
  by code_simp

text \<open>
  Claim C3, amended. For every input string the lead-time classifier returns a value in
  \<open>[0, 1]\<close> determined by, in priority order: text containing \<open>in stock australia\<close>
  (with or without hyphen, case-insensitive) gives 0; otherwise a week count is
  extracted, preferring a \<open><number> week(s)\<close> pattern, else a \<open><number> day(s)\<close> pattern
  divided by 5, where a day count too large for a float counts as no pattern; no
  pattern gives 0.5; a week count of exactly 0 gives 0; otherwise \<open>weeks \<le> 3\<close> gives
  0.2, \<open>weeks \<le> 6\<close> gives 0.6, \<open>weeks > 10\<close> gives 0.9, and \<open>6 < weeks \<le> 10\<close> gives
  \<open>0.6 + (weeks - 6) * 0.0625\<close> capped at 0.85. So the classifier agrees with the rule
  of the specification on every text whose week count is not 0 and whose day count
  fits a float. In particular \<open>2 weeks\<close> and \<open>3 weeks\<close> give 0.2, \<open>4 weeks\<close> and
  \<open>6 weeks\<close> give 0.6, \<open>7 weeks\<close> gives 0.6625, \<open>11 weeks\<close> gives 0.9,
  \<open>In Stock Australia\<close> gives 0 and the empty text gives 0.5.
\<close>

theorem risk_from_text_rule:
  "risk_from_text text = amended_risk_from_text text \<and>
   0 \<le> risk_from_text text \<and> risk_from_text text \<le> 1 \<and>
   (amended_extract_weeks (lower (strip text)) = spec_extract_weeks (lower (strip text)) \<and>
    spec_extract_weeks (lower (strip text)) \<noteq> Some 0 \<longrightarrow>
      risk_from_text text = spec_risk_from_text text) \<and>
   risk_from_text ''2 weeks'' = 0.2 \<and>
   risk_from_text ''3 weeks'' = 0.2 \<and>
   risk_from_text ''4 weeks'' = 0.6 \<and>
   risk_from_text ''6 weeks'' = 0.6 \<and>
   risk_from_text ''7 weeks'' = 0.6625 \<and>
   risk_from_text ''11 weeks'' = 0.9 \<and>
   risk_from_text ''In Stock Australia'' = 0 \<and>
   risk_from_text [] = 0.5"
proof -
  have r: "0 \<le> risk_from_text text" "risk_from_text text \<le> 1"
    using amended_risk_from_text_range [of "text"] by (simp_all add: risk_from_text_amended)
  have i: "amended_extract_weeks (lower (strip text)) = spec_extract_weeks (lower (strip text)) \<and>
      spec_extract_weeks (lower (strip text)) \<noteq> Some 0 \<longrightarrow>
      risk_from_text text = spec_risk_from_text text"
    using risk_from_text_spec [of "text"] by blast
  from risk_from_text_amended [of "text"] r i risk_from_text_examples
  show ?thesis by (intro conjI)
qed

theorem risk_from_text_rule_witness:
  "risk_from_text ''Ships in 10 Days'' = spec_risk_from_text ''Ships in 10 Days'' \<and>
   spec_risk_from_text ''Ships in 10 Days'' = 1 / 5"
proof -
  have t: "lower (strip ''Ships in 10 Days'') = ''ships in 10 days''"
    by code_simp
  have w: "re_search match_weeks_at ''ships in 10 days'' = None"
    by code_simp
  have d: "re_search match_days_at ''ships in 10 days'' = Some ''10''"
    by code_simp
  have n: "int_of_digits ''10'' = 10"
    by code_simp
  have l: "(10::nat) < float_int_limit"
    by (simp add: float_int_limit_def)
  have a: "amended_extract_weeks (lower (strip ''Ships in 10 Days'')) = Some 2"
    unfolding amended_extract_weeks_def t w d by (simp add: n l)
  have s: "spec_extract_weeks (lower (strip ''Ships in 10 Days'')) = Some 2"
    unfolding spec_extract_weeks_def t w d by (simp add: n)
  have v: "spec_risk_from_text ''Ships in 10 Days'' = 1 / 5"
    by code_simp
  show ?thesis
    using risk_from_text_rule [of "''Ships in 10 Days''"] a s v by simp
qed

end
